theory Spec2Isabelle
  imports Main "HOL-Library.Word"
begin

unbundle bit_operations_syntax

section \<open>Common data\<close>

text \<open>
  A Go \<open>[]byte\<close> is a list of 8-bit words. Where the code tells a nil slice from an
  empty one (\<open>value == nil\<close>), the slice is a \<open>bytes option\<close> and \<open>None\<close> is nil.
  A call either returns or panics; the panic message is kept.
\<close>

type_synonym byte = "8 word"
type_synonym bytes = "byte list"

datatype 'a outcome = Returned 'a | Panic string

subsection \<open>Package \<open>bytes\<close> and \<open>encoding/binary\<close>\<close>

definition Equal_bytes :: "bytes \<Rightarrow> bytes \<Rightarrow> bool" where
  "Equal_bytes a b = (a = b)"

definition HasPrefix :: "bytes \<Rightarrow> bytes \<Rightarrow> bool" where
  "HasPrefix s p = (length p \<le> length s \<and> take (length p) s = p)"

definition TrimPrefix :: "bytes \<Rightarrow> bytes \<Rightarrow> bytes" where
  "TrimPrefix s p = (if HasPrefix s p then drop (length p) s else s)"

text \<open>
  \<open>binary.BigEndian.PutUint16(b, v)\<close> stores \<open>byte(v >> 8)\<close> and \<open>byte(v)\<close> at
  \<open>b[0]\<close>, \<open>b[1]\<close>; \<open>PutUint32\<close> stores the four bytes of \<open>v\<close>, most significant
  first. Both are only called on slices of the six-byte array \<open>prefixBuf\<close> (or the
  two-byte \<open>keyLenBuf\<close>), which are long enough.
\<close>

definition PutUint16 :: "bytes \<Rightarrow> 16 word \<Rightarrow> bytes" where
  "PutUint16 b v = b[0 := ucast (drop_bit 8 v), 1 := ucast v]"

definition PutUint32 :: "bytes \<Rightarrow> 32 word \<Rightarrow> bytes" where
  "PutUint32 b v =
     b[0 := ucast (drop_bit 24 v), 1 := ucast (drop_bit 16 v),
       2 := ucast (drop_bit 8 v), 3 := ucast v]"

section \<open>Write listeners (fixed and newline framing)\<close>

text \<open>
  The \<open>io.Writer\<close> of a write listener is modelled by the bytes it has received so far;
  \<open>Write\<close> appends (the code ignores what \<open>Write\<close> returns).
\<close>

definition MaxUint16 :: nat where
  "MaxUint16 = 65535"

definition MaxUint32 :: nat where
  "MaxUint32 = 4294967295"

record PrefixWriteListener =
  writer :: bytes
  prefixBuf :: bytes

definition NewPrefixWriteListener :: "bytes \<Rightarrow> PrefixWriteListener" where
  "NewPrefixWriteListener w = \<lparr>writer = w, prefixBuf = [0, 0, 0, 0, 0, 0]\<rparr>"

definition Write_bytes :: "bytes \<Rightarrow> bytes \<Rightarrow> bytes" where
  "Write_bytes w b = w @ b"

text \<open>
  \<open>PrefixWriteListener.OnWrite\<close>, statement by statement. Both \<open>keyLen\<close> and \<open>valLen\<close>
  are \<open>len(key)\<close> in the source. \<open>uint16(keyLen)\<close> and \<open>uint32(valLen)\<close> truncate.
\<close>

definition OnWrite_prefix :: "PrefixWriteListener \<Rightarrow> bytes \<Rightarrow> bytes \<Rightarrow> PrefixWriteListener" where
  "OnWrite_prefix swl key val =
     (let keyLen = length key;
          valLen = length key
      in if keyLen > MaxUint16 \<or> valLen > MaxUint32 then swl
         else
           let pb0 = prefixBuf swl;
               pb1 = PutUint16 (take 2 pb0) (of_nat keyLen) @ drop 2 pb0;
               pb2 = take 2 pb1 @ PutUint32 (drop 2 pb1) (of_nat valLen);
               w1 = Write_bytes (writer swl) pb2;
               w2 = Write_bytes w1 key;
               w3 = Write_bytes w2 val
           in swl\<lparr>writer := w3, prefixBuf := pb2\<rparr>)"

record NewlineWriteListener =
  nl_writer :: bytes
  keyLenBuf :: bytes

definition NewNewlineWriteListener :: "bytes \<Rightarrow> NewlineWriteListener" where
  "NewNewlineWriteListener w = \<lparr>nl_writer = w, keyLenBuf = [0, 0]\<rparr>"

definition newline :: bytes where
  "newline = [10]"

definition OnWrite_newline :: "NewlineWriteListener \<Rightarrow> bytes \<Rightarrow> bytes \<Rightarrow> NewlineWriteListener" where
  "OnWrite_newline nwl key val =
     (let keyLen = length key
      in if keyLen > MaxUint16 then nwl
         else
           let kb = PutUint16 (keyLenBuf nwl) (of_nat keyLen);
               w1 = Write_bytes (nl_writer nwl) kb;
               w2 = Write_bytes w1 key;
               w3 = Write_bytes w2 val;
               w4 = Write_bytes w3 newline
           in nwl\<lparr>nl_writer := w4, keyLenBuf := kb\<rparr>)"

text \<open>
  The fixed frame as the specification words it: the 2-byte big-endian length of the
  key, the 4-byte big-endian length of the value, the key, the value; nothing for an
  oversized key or value.
\<close>

definition be16 :: "nat \<Rightarrow> bytes" where
  "be16 n = [of_nat (n div 256), of_nat n]"

definition be32 :: "nat \<Rightarrow> bytes" where
  "be32 n = [of_nat (n div 16777216), of_nat (n div 65536), of_nat (n div 256), of_nat n]"

definition spec_fixed_frame :: "bytes \<Rightarrow> bytes \<Rightarrow> bytes" where
  "spec_fixed_frame key val =
     (if length key > MaxUint16 \<or> length val > MaxUint32 then []
      else be16 (length key) @ be32 (length val) @ key @ val)"

section \<open>Listeners and the permission filter\<close>

text \<open>
  \<open>type Operation string\<close> with its five constants.
\<close>

type_synonym Operation = string

definition WriteOp :: Operation where
  "WriteOp = ''write''"

definition ReadOp :: Operation where
  "ReadOp = ''read''"

definition DeleteOp :: Operation where
  "DeleteOp = ''delete''"

definition IterKeyOp :: Operation where
  "IterKeyOp = ''iterKey''"

definition IterValueOp :: Operation where
  "IterValueOp = ''iterValue''"

text \<open>
  The \<open>Listener\<close> struct of the two key-only variants, and its extension by
  \<open>AllowedOperations\<close> (a \<open>map[Operation]struct{}\<close>, that is a set) in
  \<open>store/types/tracing.go\<close>. The writer and the trace context are type parameters.
\<close>

record ('w, 'c) Listener =
  Writer :: 'w
  Context :: 'c
  WhitelistedKeys :: "bytes list"
  BlacklistedKeys :: "bytes list"
  WhitelistedPrefixes :: "bytes list"
  BlacklistedPrefixes :: "bytes list"

record ('w, 'c) OpListener = "('w, 'c) Listener" +
  AllowedOperations :: "Operation set"

subsection \<open>First variant: two assignments to each flag\<close>

fun byteSliceContains :: "bytes list \<Rightarrow> bytes \<Rightarrow> (bytes \<Rightarrow> bytes \<Rightarrow> bool) \<Rightarrow> bool" where
  "byteSliceContains [] key doesMatch = False"
| "byteSliceContains (el # rest) key doesMatch =
     (if doesMatch key el then True else byteSliceContains rest key doesMatch)"

text \<open>
  \<open>Allowed\<close> of the first variant. Each \<open>let\<close> is one assignment of the source, in its
  order: \<open>allowed\<close> is assigned up to three times and \<open>disallowed\<close> twice, the later
  assignment replacing the earlier value.
\<close>

definition Allowed_1 :: "('w, 'c, 'z) Listener_scheme \<Rightarrow> bytes \<Rightarrow> bool" where
  "Allowed_1 l key =
     (let allowed = True;
          allowed = (if length (WhitelistedKeys l) > 0
                     then byteSliceContains (WhitelistedKeys l) key Equal_bytes else allowed);
          allowed = (if length (WhitelistedPrefixes l) > 0
                     then byteSliceContains (WhitelistedPrefixes l) key HasPrefix else allowed);
          disallowed = byteSliceContains (BlacklistedKeys l) key Equal_bytes;
          disallowed = byteSliceContains (BlacklistedPrefixes l) key HasPrefix
      in allowed \<and> \<not> disallowed)"

subsection \<open>Second variant and \<open>tracing.go\<close>: \<open>listsContains\<close>\<close>

fun keys_loop :: "bytes list \<Rightarrow> bytes \<Rightarrow> bool" where
  "keys_loop [] key = False"
| "keys_loop (k # keys) key = (if Equal_bytes key k then True else keys_loop keys key)"

fun prefixes_loop :: "bytes list \<Rightarrow> bytes \<Rightarrow> bool" where
  "prefixes_loop [] key = False"
| "prefixes_loop (p # prefixes) key = (if HasPrefix key p then True else prefixes_loop prefixes key)"

definition listsContains :: "bytes list \<Rightarrow> bytes list \<Rightarrow> bytes \<Rightarrow> bool" where
  "listsContains keys prefixes key =
     (if keys_loop keys key then True
      else if prefixes_loop prefixes key then True
      else False)"

definition Allowed_2 :: "('w, 'c, 'z) Listener_scheme \<Rightarrow> bytes \<Rightarrow> bool" where
  "Allowed_2 l key =
     (let allowed = True;
          allowed = (if length (WhitelistedKeys l) > 0 \<or> length (WhitelistedPrefixes l) > 0
                     then listsContains (WhitelistedKeys l) (WhitelistedPrefixes l) key
                     else allowed)
      in allowed \<and> \<not> listsContains (BlacklistedKeys l) (BlacklistedPrefixes l) key)"

text \<open>\<open>Allowed\<close> of \<open>tracing.go\<close>: the operation is checked first.\<close>

definition Allowed :: "('w, 'c, 'z) OpListener_scheme \<Rightarrow> Operation \<Rightarrow> bytes \<Rightarrow> bool" where
  "Allowed l op key =
     (if op \<notin> AllowedOperations l then False
      else
        let allowed = True;
            allowed = (if length (WhitelistedKeys l) > 0 \<or> length (WhitelistedPrefixes l) > 0
                       then listsContains (WhitelistedKeys l) (WhitelistedPrefixes l) key
                       else allowed)
        in allowed \<and> \<not> listsContains (BlacklistedKeys l) (BlacklistedPrefixes l) key)"

definition AllowOperation :: "('w, 'c, 'z) OpListener_scheme \<Rightarrow> Operation \<Rightarrow> ('w, 'c, 'z) OpListener_scheme" where
  "AllowOperation l op = l\<lparr>AllowedOperations := insert op (AllowedOperations l)\<rparr>"

definition DisallowOperation :: "('w, 'c, 'z) OpListener_scheme \<Rightarrow> Operation \<Rightarrow> ('w, 'c, 'z) OpListener_scheme" where
  "DisallowOperation l op = l\<lparr>AllowedOperations := AllowedOperations l - {op}\<rparr>"

definition AddKeyToWhitelist :: "('w, 'c, 'z) Listener_scheme \<Rightarrow> bytes \<Rightarrow> ('w, 'c, 'z) Listener_scheme" where
  "AddKeyToWhitelist l key = l\<lparr>WhitelistedKeys := WhitelistedKeys l @ [key]\<rparr>"


definition AddKeyToBlacklist :: "('w, 'c, 'z) Listener_scheme \<Rightarrow> bytes \<Rightarrow> ('w, 'c, 'z) Listener_scheme" where
  "AddKeyToBlacklist l key = l\<lparr>BlacklistedKeys := BlacklistedKeys l @ [key]\<rparr>"

definition AddPrefixToBlacklist :: "('w, 'c, 'z) Listener_scheme \<Rightarrow> bytes \<Rightarrow> ('w, 'c, 'z) Listener_scheme" where
  "AddPrefixToBlacklist l p = l\<lparr>BlacklistedPrefixes := BlacklistedPrefixes l @ [p]\<rparr>"

section \<open>Store interceptor\<close>

text \<open>
  The interceptor threads no state of its own: a call acts on the parent store and on
  the writers of the listeners. The model returns, with the outcome of a call and the
  store after it, the list of the calls it made to its collaborators, in the order it
  made them.
\<close>

datatype effect =
    AssertValidKey_call bytes
  | Write_call nat bytes
  | Parent_Get bytes
  | Parent_Set bytes bytes
  | Parent_Delete bytes

fun is_parent_op :: "effect \<Rightarrow> bool" where
  "is_parent_op (Parent_Get k) = True"
| "is_parent_op (Parent_Set k v) = True"
| "is_parent_op (Parent_Delete k) = True"
| "is_parent_op e = False"

fun is_write :: "effect \<Rightarrow> bool" where
  "is_write (Write_call w b) = True"
| "is_write e = False"

text \<open>
  An \<open>io.Writer\<close> of a listener: a number that identifies it in the list of calls, and
  whether its \<open>Write\<close> returns an error.
\<close>

record IoWriter =
  wid :: nat
  broken :: bool

definition Writer_Write :: "IoWriter \<Rightarrow> bytes \<Rightarrow> string option \<times> effect list" where
  "Writer_Write w b =
     (if broken w then Some ''write error'' else None, [Write_call (wid w) b])"

definition WriteString :: "IoWriter \<Rightarrow> string \<Rightarrow> string option \<times> effect list" where
  "WriteString w s = Writer_Write w (map (\<lambda>c. of_nat (of_char c)) s)"

record 'c TraceOperation =
  Operation :: Operation
  Key :: string
  Value :: string
  Metadata :: "'c option"

text \<open>
  \<open>types.AssertValidKey\<close>, \<open>base64.StdEncoding.EncodeToString\<close> and \<open>json.Marshal\<close>
  are not part of the sources. The interceptor is modelled over any three such
  functions: the key-validity rule, the encoder of bytes, and the serializer, which
  returns an error (\<open>Inl\<close>) or the bytes.
\<close>

record 'c deps =
  ValidKey :: "bytes \<Rightarrow> bool"
  EncodeToString :: "bytes \<Rightarrow> string"
  Marshal :: "'c TraceOperation \<Rightarrow> string + bytes"

definition AssertValidKey :: "'c deps \<Rightarrow> bytes \<Rightarrow> unit outcome \<times> effect list" where
  "AssertValidKey d key =
     (if ValidKey d key then Returned () else Panic ''key is nil'', [AssertValidKey_call key])"

record 'c Store =
  parent :: "bytes \<rightharpoonup> bytes"
  listeners :: "(IoWriter, 'c) OpListener list"

text \<open>
  The loop of \<open>writeOperation\<close> over the listeners. \<open>traceOp.Metadata\<close> is assigned
  in place and the assignment stays for the next round. The result of
  \<open>io.WriteString\<close> is dropped, as in the source.
\<close>

fun writeOperation_loop ::
  "'c deps \<Rightarrow> 'c TraceOperation \<Rightarrow> (IoWriter, 'c) OpListener list \<Rightarrow> Operation \<Rightarrow> bytes
     \<Rightarrow> unit outcome \<times> effect list" where
  "writeOperation_loop d traceOp [] op key = (Returned (), [])"
| "writeOperation_loop d traceOp (l # ls) op key =
     (if \<not> Allowed l op key then writeOperation_loop d traceOp ls op key
      else
        let traceOp1 = traceOp\<lparr>Metadata := Some (Context l)\<rparr>
        in case Marshal d traceOp1 of
             Inl err \<Rightarrow> (Panic (''failed to serialize listen operation: '' @ err), [])
           | Inr raw \<Rightarrow>
               (case Writer_Write (Writer l) raw of
                  (Some err, es1) \<Rightarrow> (Panic (''failed to write listen operation: '' @ err), es1)
                | (None, es1) \<Rightarrow>
                    let es2 = snd (WriteString (Writer l) [CHR 0x0A]);
                        (r, es3) = writeOperation_loop d traceOp1 ls op key
                    in (r, es1 @ es2 @ es3)))"

text \<open>
  \<open>writeOperation\<close>. A nil key or value is the empty list here: \<open>EncodeToString\<close>,
  \<open>bytes.Equal\<close> and \<open>bytes.HasPrefix\<close> do not tell nil from empty.
\<close>

definition writeOperation ::
  "'c deps \<Rightarrow> (IoWriter, 'c) OpListener list \<Rightarrow> Operation \<Rightarrow> bytes \<Rightarrow> bytes
     \<Rightarrow> unit outcome \<times> effect list" where
  "writeOperation d ls op key val =
     (let traceOp = \<lparr>Operation = op, Key = EncodeToString d key,
                     Value = EncodeToString d val, Metadata = None\<rparr>
      in writeOperation_loop d traceOp ls op key)"

definition Store_Get :: "'c deps \<Rightarrow> 'c Store \<Rightarrow> bytes \<Rightarrow> bytes option outcome \<times> 'c Store \<times> effect list" where
  "Store_Get d tkv key =
     (let val = parent tkv key;
          es0 = [Parent_Get key]
      in case writeOperation d (listeners tkv) ReadOp key (case val of None \<Rightarrow> [] | Some v \<Rightarrow> v) of
           (Panic m, es1) \<Rightarrow> (Panic m, tkv, es0 @ es1)
         | (Returned u, es1) \<Rightarrow> (Returned val, tkv, es0 @ es1))"

definition Store_Set :: "'c deps \<Rightarrow> 'c Store \<Rightarrow> bytes \<Rightarrow> bytes \<Rightarrow> unit outcome \<times> 'c Store \<times> effect list" where
  "Store_Set d tkv key val =
     (case AssertValidKey d key of
        (Panic m, es0) \<Rightarrow> (Panic m, tkv, es0)
      | (Returned u, es0) \<Rightarrow>
          (case writeOperation d (listeners tkv) WriteOp key val of
             (Panic m, es1) \<Rightarrow> (Panic m, tkv, es0 @ es1)
           | (Returned u, es1) \<Rightarrow>
               (Returned (), tkv\<lparr>parent := (parent tkv)(key \<mapsto> val)\<rparr>,
                es0 @ es1 @ [Parent_Set key val])))"

definition Store_Delete :: "'c deps \<Rightarrow> 'c Store \<Rightarrow> bytes \<Rightarrow> unit outcome \<times> 'c Store \<times> effect list" where
  "Store_Delete d tkv key =
     (case writeOperation d (listeners tkv) DeleteOp key [] of
        (Panic m, es1) \<Rightarrow> (Panic m, tkv, es1)
      | (Returned u, es1) \<Rightarrow>
          (Returned (), tkv\<lparr>parent := (parent tkv)(key := None)\<rparr>,
           es1 @ [Parent_Delete key]))"

definition Store_Has :: "'c Store \<Rightarrow> bytes \<Rightarrow> bool" where
  "Store_Has tkv key = (parent tkv key \<noteq> None)"

text \<open>
  The order the specification words for \<open>Set\<close> and \<open>Delete\<close>: the operation on the
  parent store comes first, the writes to the listeners follow it. Reading the calls
  from the first on, the parent operation is met before any write.
\<close>

fun writes_follow_parent_op :: "effect list \<Rightarrow> bool" where
  "writes_follow_parent_op [] = True"
| "writes_follow_parent_op (e # es) =
     (if is_parent_op e then True
      else if is_write e then False
      else writes_follow_parent_op es)"

text \<open>
  The calls to the writers that one event makes: for each listener that allows the
  operation at the key, in the order of the list, the serialized record and a newline.
\<close>

definition emitted ::
  "'c deps \<Rightarrow> 'c TraceOperation \<Rightarrow> (IoWriter, 'c) OpListener list \<Rightarrow> Operation \<Rightarrow> bytes
     \<Rightarrow> effect list" where
  "emitted d traceOp ls op key =
     concat (map (\<lambda>l. case Marshal d (traceOp\<lparr>Metadata := Some (Context l)\<rparr>) of
                         Inl err \<Rightarrow> []
                       | Inr raw \<Rightarrow> [Write_call (wid (Writer l)) raw, Write_call (wid (Writer l)) [10]])
                 (filter (\<lambda>l. Allowed l op key) ls))"

text \<open>
  An instance of the three functions, to run the interceptor on concrete inputs: a key
  is valid when it is not empty, and the encoders render the operation, the key and the
  value as text.
\<close>

definition text_deps :: "'c deps" where
  "text_deps =
     \<lparr>ValidKey = (\<lambda>k. k \<noteq> []),
      EncodeToString = map (\<lambda>b. char_of (unat b)),
      Marshal = (\<lambda>t. Inr (map (\<lambda>c. of_nat (of_char c)) (Operation t @ Key t @ Value t)))\<rparr>"

definition write_listener :: "nat \<Rightarrow> (IoWriter, unit) OpListener" where
  "write_listener n =
     \<lparr>Writer = \<lparr>wid = n, broken = False\<rparr>, Context = (), WhitelistedKeys = [],
      BlacklistedKeys = [], WhitelistedPrefixes = [], BlacklistedPrefixes = [],
      AllowedOperations = {WriteOp, DeleteOp}\<rparr>"

section \<open>Channels\<close>

text \<open>
  A Go channel, as far as the code uses it: its capacity, the values buffered in it, the
  number of receivers blocked on it, the values handed to receivers so far, and whether
  it is closed. \<open>close\<close> of a closed channel panics. The send case of a \<open>select\<close> with a
  \<open>default\<close> case never blocks: it panics on a closed channel, hands the value to a
  blocked receiver when there is one, buffers it when there is room, and otherwise
  does not send, so that the \<open>default\<close> case runs.
\<close>

record 'a chan =
  capacity :: nat
  buffered :: "'a list"
  recvq :: nat
  received :: "'a list"
  closed :: bool

definition make_chan :: "nat \<Rightarrow> 'a chan" where
  "make_chan n = \<lparr>capacity = n, buffered = [], recvq = 0, received = [], closed = False\<rparr>"

definition close_chan :: "'a chan \<Rightarrow> 'a chan outcome" where
  "close_chan ch =
     (if closed ch then Panic ''close of closed channel'' else Returned (ch\<lparr>closed := True\<rparr>))"

definition select_send :: "'a chan \<Rightarrow> 'a \<Rightarrow> (bool \<times> 'a chan) outcome" where
  "select_send ch x =
     (if closed ch then Panic ''send on closed channel''
      else if recvq ch > 0
        then Returned (True, ch\<lparr>recvq := recvq ch - 1, received := received ch @ [x]\<rparr>)
      else if length (buffered ch) < capacity ch
        then Returned (True, ch\<lparr>buffered := buffered ch @ [x]\<rparr>)
      else Returned (False, ch))"

section \<open>State listener\<close>

record StateListener =
  sl_c :: "bytes chan"

definition NewStateListener :: StateListener where
  "NewStateListener = \<lparr>sl_c = make_chan 0\<rparr>"

definition StateListener_Write ::
  "StateListener \<Rightarrow> bytes \<Rightarrow> (int \<times> string option) outcome \<times> StateListener" where
  "StateListener_Write sl b =
     (case select_send (sl_c sl) b of
        Panic m \<Rightarrow> (Panic m, sl)
      | Returned (True, ch) \<Rightarrow> (Returned (int (length b), None), sl\<lparr>sl_c := ch\<rparr>)
      | Returned (False, ch) \<Rightarrow>
          (Returned (0, Some ''unable to write bytes to channel; no listener available''), sl))"

definition Output :: "StateListener \<Rightarrow> bytes chan" where
  "Output sl = sl_c sl"

section \<open>File streamer\<close>

text \<open>
  A destination is an \<open>io.WriteCloser\<close>: what its \<open>Close\<close> returns (nil or an error), and
  how often \<open>Close\<close> has been called on it. The map \<open>destinations\<close> is the list of its
  entries in the order in which \<open>range\<close> visits them (Go leaves that order open; the
  model holds for each).
\<close>

record WriteCloser =
  close_error :: "string option"
  close_calls :: nat

definition dst_Close :: "WriteCloser \<Rightarrow> string option \<times> WriteCloser" where
  "dst_Close dst = (close_error dst, dst\<lparr>close_calls := Suc (close_calls dst)\<rparr>)"

record FileStreamer =
  writeDirPath :: string
  quitChan :: "unit chan"
  destinations :: "(string \<times> WriteCloser list) list"
  sources :: "(string \<times> bytes chan list) list"

definition NewFileStreamer :: FileStreamer where
  "NewFileStreamer =
     \<lparr>writeDirPath = [], quitChan = make_chan 0, destinations = [], sources = []\<rparr>"

fun append_at :: "(string \<times> 'a list) list \<Rightarrow> string \<Rightarrow> 'a \<Rightarrow> (string \<times> 'a list) list" where
  "append_at [] path x = [(path, [x])]"
| "append_at ((p, xs) # m) path x =
     (if p = path then (p, xs @ [x]) # m else (p, xs) # append_at m path x)"

definition AddDestination :: "FileStreamer \<Rightarrow> string \<Rightarrow> WriteCloser option \<Rightarrow> FileStreamer" where
  "AddDestination fs path dst =
     (case dst of
        None \<Rightarrow> fs
      | Some d \<Rightarrow> fs\<lparr>destinations := append_at (destinations fs) path d\<rparr>)"

definition AddSource :: "FileStreamer \<Rightarrow> string \<Rightarrow> bytes chan option \<Rightarrow> FileStreamer" where
  "AddSource fs path src =
     (case src of
        None \<Rightarrow> fs
      | Some s \<Rightarrow> fs\<lparr>sources := append_at (sources fs) path s\<rparr>)"

definition close_errorf :: "string \<Rightarrow> string \<Rightarrow> string" where
  "close_errorf path err =
     ''error closing destination: path ('' @ path @ '') err ('' @ err @ '')''"

text \<open>
  The two loops of \<open>Close\<close>. A destination whose \<open>Close\<close> returns an error ends both
  loops: the \<open>return\<close> leaves the destinations after it as they are.
\<close>

fun close_dsts :: "string \<Rightarrow> WriteCloser list \<Rightarrow> string option \<times> WriteCloser list" where
  "close_dsts path [] = (None, [])"
| "close_dsts path (dst # dsts) =
     (case dst_Close dst of
        (Some err, dst1) \<Rightarrow> (Some (close_errorf path err), dst1 # dsts)
      | (None, dst1) \<Rightarrow>
          (let (r, dsts1) = close_dsts path dsts in (r, dst1 # dsts1)))"

fun close_paths ::
  "(string \<times> WriteCloser list) list \<Rightarrow> string option \<times> (string \<times> WriteCloser list) list" where
  "close_paths [] = (None, [])"
| "close_paths ((path, dsts) # m) =
     (case close_dsts path dsts of
        (Some err, dsts1) \<Rightarrow> (Some err, (path, dsts1) # m)
      | (None, dsts1) \<Rightarrow>
          (let (r, m1) = close_paths m in (r, (path, dsts1) # m1)))"

definition FileStreamer_Close :: "FileStreamer \<Rightarrow> string option outcome \<times> FileStreamer" where
  "FileStreamer_Close fs =
     (case close_chan (quitChan fs) of
        Panic m \<Rightarrow> (Panic m, fs)
      | Returned q \<Rightarrow>
          (let (r, m1) = close_paths (destinations fs)
           in (Returned r, fs\<lparr>quitChan := q, destinations := m1\<rparr>)))"

section \<open>Bank table decoder\<close>

text \<open>
  The key constants of \<open>x/bank/types\<close> and the codecs are not part of the sources. The
  decoder is modelled over any five key constants and over any unmarshalling functions,
  each returning an error (\<open>Inl\<close>) or the decoded value.
\<close>

record bank_keys =
  SupplyKey :: bytes
  BalancesPrefix :: bytes
  DenomMetadataPrefix :: bytes
  KeySendEnabled :: bytes
  KeyDefaultSendEnabled :: bytes

record Coin =
  coin_Denom :: string
  coin_Amount :: int

record DenomUnit =
  unit_Denom :: string
  unit_Exponent :: nat
  unit_Aliases :: "string list"

record Metadata =
  md_Name :: string
  md_Base :: string
  md_DenomUnits :: "DenomUnit list"
  md_Description :: string
  md_Display :: string
  md_Symbol :: string

record SendEnabled =
  se_Denom :: string
  se_Enabled :: bool

record codec =
  Int_Unmarshal :: "bytes \<Rightarrow> string + int"
  Int_String :: "int \<Rightarrow> string"
  Unmarshal_Coin :: "bytes \<Rightarrow> string + Coin"
  Unmarshal_Metadata :: "bytes \<Rightarrow> string + Metadata"
  UnmarshalJSON_SendEnabled :: "bytes \<Rightarrow> string + SendEnabled option list"
  UnmarshalJSON_bool :: "bytes \<Rightarrow> string + bool"

text \<open>\<open>MustUnmarshal\<close> panics where \<open>Unmarshal\<close> returns an error.\<close>

definition MustUnmarshal :: "(bytes \<Rightarrow> string + 'a) \<Rightarrow> bytes \<Rightarrow> 'a outcome" where
  "MustUnmarshal unmarshal v = (case unmarshal v of Inl err \<Rightarrow> Panic err | Inr x \<Rightarrow> Returned x)"

text \<open>
  The table records, with their fields in the order given:
  \<open>SupplyTable\<close> (Amount, Denom), \<open>BalanceTable\<close> (Address, Denom, Balance),
  \<open>DenomMetadataTable\<close> (Denom, Metadata), \<open>DenomEnabledTable\<close> (Denom, Enabled).
\<close>

datatype message =
    SupplyTable string string
  | BalanceTable string string "Coin option"
  | DenomMetadataTable string "Metadata option"
  | DenomEnabledTable string bool

record TableInfo =
  Name :: string
  PrimaryKeyFields :: "string list"

record TableUpdate =
  Table :: string
  UpdateOrReplace :: bool
  Updated :: "message option"
  ClearedFields :: "string list"

text \<open>
  The result of a decoder: the updates and the error (\<open>None\<close> is nil; a nil slice of
  updates is the empty list), or a panic.
\<close>

type_synonym decoded = "(TableUpdate list \<times> string option) outcome"

definition BalanceTableInfo :: TableInfo where
  "BalanceTableInfo = \<lparr>Name = ''Balance'', PrimaryKeyFields = [''Address'', ''Demom'']\<rparr>"

definition SupplyTableInfo :: TableInfo where
  "SupplyTableInfo = \<lparr>Name = ''Supply'', PrimaryKeyFields = [''Denom'']\<rparr>"

definition MetaDataTableInfo :: TableInfo where
  "MetaDataTableInfo = \<lparr>Name = ''Metadata'', PrimaryKeyFields = [''Denom'']\<rparr>"

definition EnabledTableInfo :: TableInfo where
  "EnabledTableInfo = \<lparr>Name = ''Enabled'', PrimaryKeyFields = [''Denom'']\<rparr>"

definition Schema :: "TableInfo list" where
  "Schema = [BalanceTableInfo, SupplyTableInfo, MetaDataTableInfo, EnabledTableInfo]"

definition string_of_bytes :: "bytes \<Rightarrow> string" where
  "string_of_bytes b = map (\<lambda>x. char_of (unat x)) b"

definition decodeSupplyUpdate :: "bank_keys \<Rightarrow> codec \<Rightarrow> bytes \<Rightarrow> bytes option \<Rightarrow> decoded" where
  "decodeSupplyUpdate ks cdc key val =
     (let denomBytes = TrimPrefix key (SupplyKey ks);
          denom = string_of_bytes denomBytes
      in case val of
           None \<Rightarrow>
             Returned ([\<lparr>Table = ''Supply'', UpdateOrReplace = True,
                         Updated = Some (SupplyTable '''' denom),
                         ClearedFields = [''Amount'']\<rparr>], None)
         | Some v \<Rightarrow>
             (case Int_Unmarshal cdc v of
                Inl err \<Rightarrow> Returned ([], Some (''unable to unmarshal supply value '' @ err))
              | Inr amount \<Rightarrow>
                  Returned ([\<lparr>Table = ''Supply'', UpdateOrReplace = True,
                              Updated = Some (SupplyTable (Int_String cdc amount) denom),
                              ClearedFields = []\<rparr>], None)))"

text \<open>
  \<open>decodeBalanceUpdate\<close>. The index \<open>addrDenomKey[0]\<close> panics on the empty remainder.
  Go checks the upper bound of \<open>addrDenomKey[1 : addrLen+1]\<close> against the capacity of
  the slice, which is at least its length: where \<open>addrLen + 1\<close> exceeds the length, either
  this expression panics or the next one, \<open>addrDenomKey[addrLen+2:]\<close>, does, whose lower
  bound is checked against the length. The call panics in both cases, and the model checks
  both bounds against the length. A lower bound equal to the length is in range and
  gives the empty slice.
\<close>

definition decodeBalanceUpdate :: "bank_keys \<Rightarrow> codec \<Rightarrow> bytes \<Rightarrow> bytes option \<Rightarrow> decoded" where
  "decodeBalanceUpdate ks cdc key val =
     (let addrDenomKey = TrimPrefix key (BalancesPrefix ks)
      in if addrDenomKey = [] then Panic ''index out of range''
         else
           let addrLenByte = hd addrDenomKey;
               addrLen = unat addrLenByte
           in if addrLen + 1 > length addrDenomKey then Panic ''slice bounds out of range''
              else if addrLen + 2 > length addrDenomKey then Panic ''slice bounds out of range''
              else
                let addr = string_of_bytes (take addrLen (drop 1 addrDenomKey));
                    denom = string_of_bytes (drop (addrLen + 2) addrDenomKey)
                in case val of
                     None \<Rightarrow>
                       Returned ([\<lparr>Table = ''Balance'', UpdateOrReplace = True,
                                   Updated = Some (BalanceTable addr denom None),
                                   ClearedFields = [''Balance'']\<rparr>], None)
                   | Some v \<Rightarrow>
                       (case MustUnmarshal (Unmarshal_Coin cdc) v of
                          Panic m \<Rightarrow> Panic m
                        | Returned balance \<Rightarrow>
                            Returned ([\<lparr>Table = ''Balance'', UpdateOrReplace = True,
                                        Updated = Some (BalanceTable addr denom (Some balance)),
                                        ClearedFields = []\<rparr>], None)))"

definition decodeMetadataUpdate :: "bank_keys \<Rightarrow> codec \<Rightarrow> bytes \<Rightarrow> bytes option \<Rightarrow> decoded" where
  "decodeMetadataUpdate ks cdc key val =
     (let denomBytes = TrimPrefix key (DenomMetadataPrefix ks);
          denom = string_of_bytes denomBytes
      in case val of
           None \<Rightarrow>
             Returned ([\<lparr>Table = ''Metadata'', UpdateOrReplace = True,
                         Updated = Some (DenomMetadataTable denom None),
                         ClearedFields = [''Metadata'']\<rparr>], None)
         | Some v \<Rightarrow>
             (case MustUnmarshal (Unmarshal_Metadata cdc) v of
                Panic m \<Rightarrow> Panic m
              | Returned metadata \<Rightarrow>
                  Returned ([\<lparr>Table = ''Metadata'', UpdateOrReplace = True,
                              Updated = Some (DenomMetadataTable denom
                                (Some \<lparr>md_Name = md_Name metadata, md_Base = md_Base metadata,
                                       md_DenomUnits = md_DenomUnits metadata,
                                       md_Description = md_Description metadata,
                                       md_Display = md_Display metadata,
                                       md_Symbol = md_Symbol metadata\<rparr>)),
                              ClearedFields = []\<rparr>], None)))"

text \<open>
  The loop of \<open>decodeSendEnabledUpdate\<close> over the decoded pointers; a nil pointer
  (\<open>None\<close>) panics at \<open>se.Denom\<close>.
\<close>

fun sendEnables_loop :: "SendEnabled option list \<Rightarrow> TableUpdate list outcome" where
  "sendEnables_loop [] = Returned []"
| "sendEnables_loop (None # ses) = Panic ''nil pointer dereference''"
| "sendEnables_loop (Some se # ses) =
     (case sendEnables_loop ses of
        Panic m \<Rightarrow> Panic m
      | Returned updates \<Rightarrow>
          Returned (\<lparr>Table = ''Enabled'', UpdateOrReplace = True,
                     Updated = Some (DenomEnabledTable (se_Denom se) (se_Enabled se)),
                     ClearedFields = []\<rparr> # updates))"

definition decodeSendEnabledUpdate :: "bank_keys \<Rightarrow> codec \<Rightarrow> bytes \<Rightarrow> bytes option \<Rightarrow> decoded" where
  "decodeSendEnabledUpdate ks cdc key val =
     (case val of
        None \<Rightarrow>
          Returned ([\<lparr>Table = ''Enabled'', UpdateOrReplace = True, Updated = None,
                      ClearedFields = [''Enabled'']\<rparr>], None)
      | Some v \<Rightarrow>
          (case UnmarshalJSON_SendEnabled cdc v of
             Inl err \<Rightarrow> Returned ([], Some ''unable to unmarshal send enabled value'')
           | Inr sendEnables \<Rightarrow>
               (case sendEnables_loop sendEnables of
                  Panic m \<Rightarrow> Panic m
                | Returned updates \<Rightarrow> Returned (updates, None))))"

definition decodeDefaultSendEnabledUpdate :: "bank_keys \<Rightarrow> codec \<Rightarrow> bytes \<Rightarrow> bytes option \<Rightarrow> decoded" where
  "decodeDefaultSendEnabledUpdate ks cdc key val =
     (case val of
        None \<Rightarrow>
          Returned ([\<lparr>Table = ''Enabled'', UpdateOrReplace = True, Updated = None,
                      ClearedFields = [''Enabled'']\<rparr>], None)
      | Some v \<Rightarrow>
          (case UnmarshalJSON_bool cdc v of
             Inl err \<Rightarrow> Returned ([], Some ''unable to unmarshal default send enabled value'')
           | Inr defaultSendEnabled \<Rightarrow>
               Returned ([\<lparr>Table = ''Enabled'', UpdateOrReplace = True,
                           Updated = Some (DenomEnabledTable '''' defaultSendEnabled),
                           ClearedFields = []\<rparr>], None)))"

definition Decode :: "bank_keys \<Rightarrow> codec \<Rightarrow> bytes \<Rightarrow> bytes option \<Rightarrow> decoded" where
  "Decode ks cdc key val =
     (if HasPrefix key (SupplyKey ks) then decodeSupplyUpdate ks cdc key val
      else if HasPrefix key (BalancesPrefix ks) then decodeBalanceUpdate ks cdc key val
      else if HasPrefix key (DenomMetadataPrefix ks) then decodeMetadataUpdate ks cdc key val
      else if Equal_bytes key (KeySendEnabled ks) then decodeSendEnabledUpdate ks cdc key val
      else if Equal_bytes key (KeyDefaultSendEnabled ks)
        then decodeDefaultSendEnabledUpdate ks cdc key val
      else Returned ([], None))"

subsection \<open>Notions the claims about the decoder use\<close>

text \<open>A key that one of the five cases of \<open>Decode\<close> takes.\<close>

definition registered :: "bank_keys \<Rightarrow> bytes \<Rightarrow> bool" where
  "registered ks key =
     (HasPrefix key (SupplyKey ks) \<or> HasPrefix key (BalancesPrefix ks)
      \<or> HasPrefix key (DenomMetadataPrefix ks) \<or> Equal_bytes key (KeySendEnabled ks)
      \<or> Equal_bytes key (KeyDefaultSendEnabled ks))"

text \<open>A key that \<open>Decode\<close> hands to \<open>decodeBalanceUpdate\<close>, and its remainder.\<close>

definition balance_key :: "bank_keys \<Rightarrow> bytes \<Rightarrow> bool" where
  "balance_key ks key = (HasPrefix key (BalancesPrefix ks) \<and> \<not> HasPrefix key (SupplyKey ks))"

definition remainder :: "bank_keys \<Rightarrow> bytes \<Rightarrow> bytes" where
  "remainder ks key = TrimPrefix key (BalancesPrefix ks)"

text \<open>
  A remainder that is empty, or shorter than \<open>addrLen + 2\<close> for the \<open>addrLen\<close> in its
  first byte.
\<close>

definition too_short :: "bytes \<Rightarrow> bool" where
  "too_short r = (r = [] \<or> length r < unat (hd r) + 2)"

text \<open>
  The value-bearing fields of each table: the fields that the decoders fill from the
  value and not from the key (\<open>Amount\<close>, \<open>Balance\<close>, \<open>Metadata\<close>, \<open>Enabled\<close>).
\<close>

definition value_fields :: "string \<Rightarrow> string list" where
  "value_fields t =
     (if t = ''Supply'' then [''Amount'']
      else if t = ''Balance'' then [''Balance'']
      else if t = ''Metadata'' then [''Metadata'']
      else if t = ''Enabled'' then [''Enabled'']
      else [])"

text \<open>
  The fields a record carries: those that differ from the zero value of their type (the
  empty string, nil, false), which is how a protobuf message tells a set field.
\<close>

fun carried_fields :: "message \<Rightarrow> string list" where
  "carried_fields (SupplyTable amount denom) =
     (if amount \<noteq> [] then [''Amount''] else []) @ (if denom \<noteq> [] then [''Denom''] else [])"
| "carried_fields (BalanceTable addr denom balance) =
     (if addr \<noteq> [] then [''Address''] else []) @ (if denom \<noteq> [] then [''Denom''] else [])
     @ (if balance \<noteq> None then [''Balance''] else [])"
| "carried_fields (DenomMetadataTable denom metadata) =
     (if denom \<noteq> [] then [''Denom''] else []) @ (if metadata \<noteq> None then [''Metadata''] else [])"
| "carried_fields (DenomEnabledTable denom enabled) =
     (if denom \<noteq> [] then [''Denom''] else []) @ (if enabled then [''Enabled''] else [])"

text \<open>
  An update that represents a deletion: patch mode, a non-empty list of cleared fields
  that names every value-bearing field of the table, and a record (if any) that carries
  no value-bearing field.
\<close>

definition deletion_patch :: "TableUpdate \<Rightarrow> bool" where
  "deletion_patch u =
     (UpdateOrReplace u \<and> ClearedFields u \<noteq> []
      \<and> list_all (\<lambda>f. f \<in> set (ClearedFields u)) (value_fields (Table u))
      \<and> (case Updated u of
            None \<Rightarrow> True
          | Some m \<Rightarrow> list_all (\<lambda>f. f \<notin> set (carried_fields m)) (value_fields (Table u))))"

text \<open>
  An instance of the key constants with one-byte prefixes, and a codec for which no
  value is well-formed (each unmarshalling function returns an error), to run the
  decoder on concrete keys and on malformed values.
\<close>

definition one_byte_keys :: bank_keys where
  "one_byte_keys =
     \<lparr>SupplyKey = [0], BalancesPrefix = [2], DenomMetadataPrefix = [1],
      KeySendEnabled = [83, 101, 110, 100, 69, 110, 97, 98, 108, 101, 100],
      KeyDefaultSendEnabled = [68, 101, 102, 97, 117, 108, 116, 83, 101, 110, 100, 69, 110, 97,
                               98, 108, 101, 100]\<rparr>"

definition rejecting_codec :: codec where
  "rejecting_codec =
     \<lparr>Int_Unmarshal = (\<lambda>v. Inl ''malformed''),
      Int_String = (\<lambda>i. []),
      Unmarshal_Coin = (\<lambda>v. Inl ''malformed''),
      Unmarshal_Metadata = (\<lambda>v. Inl ''malformed''),
      UnmarshalJSON_SendEnabled = (\<lambda>v. Inl ''malformed''),
      UnmarshalJSON_bool = (\<lambda>v. Inl ''malformed'')\<rparr>"


section \<open>Theorems: write listeners\<close>

lemma PutUint16_two: "PutUint16 [a, b] v = [ucast (drop_bit 8 v), ucast v]"
  by (simp add: PutUint16_def)

lemma PutUint32_four:
  "PutUint32 [a, b, c, d] v =
     [ucast (drop_bit 24 v), ucast (drop_bit 16 v), ucast (drop_bit 8 v), ucast v]"
  by (simp add: PutUint32_def numeral_2_eq_2 numeral_3_eq_3)

lemma length_six_cases:
  assumes "length (xs :: 'a list) = 6"
  obtains a b c d e f where "xs = [a, b, c, d, e, f]"
proof -
  from assms obtain a b c d e f r where "xs = a # b # c # d # e # f # r"
    by (auto simp: numeral_eq_Suc length_Suc_conv)
  with assms have "xs = [a, b, c, d, e, f]" by simp
  then show thesis by (rule that)
qed

text \<open>
  What the fixed framing encoder writes, for every key and value: the header is built
  from the length of the key twice, and only the length of the key is checked.
\<close>

lemma OnWrite_prefix_writer:
  assumes "length (prefixBuf swl) = 6"
  shows "writer (OnWrite_prefix swl key val) =
    (if length key > MaxUint16 then writer swl
     else writer swl @
       [ucast (drop_bit 8 (of_nat (length key) :: 16 word)),
        ucast (of_nat (length key) :: 16 word),
        ucast (drop_bit 24 (of_nat (length key) :: 32 word)),
        ucast (drop_bit 16 (of_nat (length key) :: 32 word)),
        ucast (drop_bit 8 (of_nat (length key) :: 32 word)),
        ucast (of_nat (length key) :: 32 word)]
       @ key @ val)"
proof -
  from assms obtain a b c d e f where pb: "prefixBuf swl = [a, b, c, d, e, f]"
    by (rule length_six_cases)
  have le: "MaxUint16 \<le> MaxUint32"
    by (simp add: MaxUint16_def MaxUint32_def)
  show ?thesis
  proof (cases "length key > MaxUint16")
    case True
    then show ?thesis by (simp add: OnWrite_prefix_def Let_def)
  next
    case False
    with le have "\<not> length key > MaxUint32" by linarith
    with False show ?thesis
      by (simp add: OnWrite_prefix_def Let_def pb PutUint16_two PutUint32_four Write_bytes_def)
  qed
qed

text \<open>
  C1. The fixed framing encoder is claimed to write the 2-byte length of the key, the
  4-byte length of the value, the key and the value, so that the frame can be decoded.
  On the one-byte key \<open>a\<close> with the empty value the code writes a header whose value
  length is 1 (the length of the key) followed by no value byte, where the frame of the
  specification announces a value of length 0.
\<close>

theorem OnWrite_prefix_value_length_is_key_length:
  "writer (OnWrite_prefix (NewPrefixWriteListener []) [97] []) = [0, 1, 0, 0, 0, 1, 97]
   \<and> spec_fixed_frame [97] [] = [0, 1, 0, 0, 0, 0, 97]"
  by (simp add: OnWrite_prefix_writer NewPrefixWriteListener_def MaxUint16_def
      spec_fixed_frame_def be16_def be32_def MaxUint32_def)

section \<open>Theorems: permission filter\<close>





text \<open>
  C2. The two key-only variants of \<open>Allowed\<close> are claimed to agree on every listener
  and key. With the key \<open>a\<close> in the blacklisted keys and every other list empty, the
  first variant allows the key \<open>a\<close> (its second assignment to \<open>disallowed\<close> discards
  the result of the exact-key check), the second variant does not.
\<close>

theorem Allowed_variants_differ_on_blacklisted_key:
  "Allowed_1 \<lparr>Writer = (), Context = (), WhitelistedKeys = [], BlacklistedKeys = [[97]],
              WhitelistedPrefixes = [], BlacklistedPrefixes = []\<rparr> [97] = True
   \<and> Allowed_2 \<lparr>Writer = (), Context = (), WhitelistedKeys = [], BlacklistedKeys = [[97]],
              WhitelistedPrefixes = [], BlacklistedPrefixes = []\<rparr> [97] = False"
  by (simp add: Allowed_1_def Allowed_2_def listsContains_def Equal_bytes_def)



section \<open>Theorems: store interceptor\<close>

text \<open>
  When the loop of \<open>writeOperation\<close> returns, the calls it made are the serialized
  record and the newline for each listener that allows the event, in the order of the
  listeners.
\<close>

lemma writeOperation_loop_emitted:
  "fst (writeOperation_loop d traceOp ls op key) = Returned () \<Longrightarrow>
   snd (writeOperation_loop d traceOp ls op key) = emitted d traceOp ls op key"
proof (induction ls arbitrary: traceOp)
  case Nil
  then show ?case by (simp add: emitted_def)
next
  case (Cons l ls)
  show ?case
  proof (cases "Allowed l op key")
    case False
    with Cons show ?thesis by (simp add: emitted_def)
  next
    case True
    let ?t1 = "traceOp\<lparr>Metadata := Some (Context l)\<rparr>"
    from Cons.prems True obtain raw where m: "Marshal d ?t1 = Inr raw"
      by (cases "Marshal d ?t1") (auto simp: Let_def)
    from Cons.prems True m have nb: "\<not> broken (Writer l)"
      by (auto simp: Let_def Writer_Write_def split: if_splits)
    from Cons.prems True m nb have r: "fst (writeOperation_loop d ?t1 ls op key) = Returned ()"
      by (simp add: Let_def Writer_Write_def split: prod.splits)
    from Cons.IH [OF r] have ih: "snd (writeOperation_loop d ?t1 ls op key) = emitted d ?t1 ls op key" .
    have e: "emitted d ?t1 ls op key = emitted d traceOp ls op key"
      by (simp add: emitted_def)
    obtain r es3 where p: "writeOperation_loop d ?t1 ls op key = (r, es3)"
      by (cases "writeOperation_loop d ?t1 ls op key")
    with ih e have es3: "es3 = emitted d traceOp ls op key" by simp
    have "snd (writeOperation_loop d traceOp (l # ls) op key) =
          [Write_call (wid (Writer l)) raw, Write_call (wid (Writer l)) [10]] @ es3"
      using True m nb p by (simp add: Let_def Writer_Write_def WriteString_def)
    also have "\<dots> = emitted d traceOp (l # ls) op key"
      using True m es3 by (simp add: emitted_def)
    finally show ?thesis .
  qed
qed

text \<open>
  C3, as the code has it. Every \<open>Set\<close> that returns has called the key-validity rule
  first, then written the event to each listener that allows a write at the key, and
  last set the key in the parent store; every \<open>Delete\<close> that returns has written the
  event to each listener that allows a delete at the key and then deleted the key in the
  parent store. The calls are all made before the call returns, and the parent store
  holds the new binding.
\<close>

theorem Store_Set_Delete_emit_then_parent:
  "(fst (Store_Set d tkv key val) = Returned () \<longrightarrow>
      Store_Set d tkv key val =
        (Returned (), tkv\<lparr>parent := (parent tkv)(key \<mapsto> val)\<rparr>,
         [AssertValidKey_call key]
         @ emitted d \<lparr>Operation = WriteOp, Key = EncodeToString d key,
                       Value = EncodeToString d val, Metadata = None\<rparr> (listeners tkv) WriteOp key
         @ [Parent_Set key val]))
   \<and> (fst (Store_Delete d tkv key) = Returned () \<longrightarrow>
      Store_Delete d tkv key =
        (Returned (), tkv\<lparr>parent := (parent tkv)(key := None)\<rparr>,
         emitted d \<lparr>Operation = DeleteOp, Key = EncodeToString d key,
                     Value = EncodeToString d [], Metadata = None\<rparr> (listeners tkv) DeleteOp key
         @ [Parent_Delete key]))"
proof (intro conjI impI)
  assume a: "fst (Store_Set d tkv key val) = Returned ()"
  let ?t = "\<lparr>Operation = WriteOp, Key = EncodeToString d key,
                       Value = EncodeToString d val, Metadata = None\<rparr>"
  from a have v: "ValidKey d key"
    by (auto simp: Store_Set_def AssertValidKey_def split: if_splits)
  from a v have w: "fst (writeOperation_loop d ?t (listeners tkv) WriteOp key) = Returned ()"
    by (auto simp: Store_Set_def AssertValidKey_def writeOperation_def split: prod.splits outcome.splits)
  from v w writeOperation_loop_emitted [OF w]
  show "Store_Set d tkv key val =
        (Returned (), tkv\<lparr>parent := (parent tkv)(key \<mapsto> val)\<rparr>,
         [AssertValidKey_call key] @ emitted d ?t (listeners tkv) WriteOp key @ [Parent_Set key val])"
    by (auto simp: Store_Set_def AssertValidKey_def writeOperation_def split: prod.splits outcome.splits)
next
  assume a: "fst (Store_Delete d tkv key) = Returned ()"
  let ?t = "\<lparr>Operation = DeleteOp, Key = EncodeToString d key,
                     Value = EncodeToString d [], Metadata = None\<rparr>"
  from a have w: "fst (writeOperation_loop d ?t (listeners tkv) DeleteOp key) = Returned ()"
    by (auto simp: Store_Delete_def writeOperation_def split: prod.splits outcome.splits)
  from w writeOperation_loop_emitted [OF w]
  show "Store_Delete d tkv key =
        (Returned (), tkv\<lparr>parent := (parent tkv)(key := None)\<rparr>,
         emitted d ?t (listeners tkv) DeleteOp key @ [Parent_Delete key])"
    by (auto simp: Store_Delete_def writeOperation_def split: prod.splits outcome.splits)
qed

theorem Store_Set_Delete_emit_then_parent_witness:
  "fst (Store_Set text_deps \<lparr>parent = Map.empty, listeners = [write_listener 0]\<rparr> [97] [98])
     = Returned ()
   \<and> snd (snd (Store_Set text_deps \<lparr>parent = Map.empty, listeners = [write_listener 0]\<rparr> [97] [98]))
     = [AssertValidKey_call [97], Write_call 0 [119, 114, 105, 116, 101, 97, 98],
        Write_call 0 [10], Parent_Set [97] [98]]
   \<and> fst (Store_Delete text_deps \<lparr>parent = [[97] \<mapsto> [98]], listeners = [write_listener 0]\<rparr> [97])
     = Returned ()
   \<and> snd (snd (Store_Delete text_deps \<lparr>parent = [[97] \<mapsto> [98]], listeners = [write_listener 0]\<rparr> [97]))
     = [Write_call 0 [100, 101, 108, 101, 116, 101, 97], Write_call 0 [10], Parent_Delete [97]]"
proof -
  let ?s = "\<lparr>parent = Map.empty, listeners = [write_listener 0]\<rparr>"
  let ?s' = "\<lparr>parent = [[97] \<mapsto> [98]], listeners = [write_listener 0]\<rparr>"
  have s: "fst (Store_Set text_deps ?s [97] [98]) = Returned ()"
    by (simp add: Store_Set_def AssertValidKey_def writeOperation_def text_deps_def
        write_listener_def Allowed_def listsContains_def WriteOp_def DeleteOp_def
        Writer_Write_def WriteString_def Let_def)
  have d: "fst (Store_Delete text_deps ?s' [97]) = Returned ()"
    by (simp add: Store_Delete_def writeOperation_def text_deps_def
        write_listener_def Allowed_def listsContains_def WriteOp_def DeleteOp_def
        Writer_Write_def WriteString_def Let_def)
  from s d Store_Set_Delete_emit_then_parent [of text_deps ?s "[97]" "[98]"]
    Store_Set_Delete_emit_then_parent [of text_deps ?s' "[97]" "[98]"]
  show ?thesis
    by (simp add: emitted_def text_deps_def write_listener_def Allowed_def listsContains_def
        WriteOp_def DeleteOp_def)
qed

text \<open>
  C3, as it is worded: the operation on the parent store first, the event to the
  listeners after it. A \<open>Set\<close> of the key \<open>a\<close> on a store with one listener that allows
  writes returns, and the write to the listener is made before the parent store is
  touched.
\<close>

theorem Store_Set_emits_before_parent_counterexample:
  "fst (Store_Set text_deps \<lparr>parent = Map.empty, listeners = [write_listener 0]\<rparr> [97] [98])
     = Returned ()
   \<and> \<not> writes_follow_parent_op
        (snd (snd (Store_Set text_deps \<lparr>parent = Map.empty, listeners = [write_listener 0]\<rparr> [97] [98])))"
  by (simp add: Store_Set_def AssertValidKey_def writeOperation_def text_deps_def
      write_listener_def Allowed_def listsContains_def WriteOp_def DeleteOp_def
      Writer_Write_def WriteString_def Let_def)

section \<open>Theorems: state listener\<close>

text \<open>
  The channel of a state listener is made unbuffered and the code never closes it;
  \<open>Write\<close> keeps it so, and never buffers a value in it.
\<close>

lemma NewStateListener_unbuffered_open:
  "capacity (sl_c NewStateListener) = 0 \<and> \<not> closed (sl_c NewStateListener)"
  by (simp add: NewStateListener_def make_chan_def)

lemma StateListener_Write_keeps_unbuffered_open:
  "capacity (sl_c sl) = 0 \<Longrightarrow> \<not> closed (sl_c sl) \<Longrightarrow>
   capacity (sl_c (snd (StateListener_Write sl b))) = 0
   \<and> \<not> closed (sl_c (snd (StateListener_Write sl b)))
   \<and> buffered (sl_c (snd (StateListener_Write sl b))) = buffered (sl_c sl)"
  by (simp add: StateListener_Write_def select_send_def)

text \<open>
  C9. \<open>StateListener.Write\<close> does not block. On the unbuffered, open channel of a state
  listener: when a receiver is waiting, \<open>b\<close> is handed to it and the call returns
  \<open>(len(b), nil)\<close>; when none is waiting, the call returns \<open>(0, err)\<close> with a non-nil
  error and leaves the listener as it was, with nothing queued. The call returns in both
  cases.
\<close>

theorem StateListener_Write_nonblocking:
  "capacity (sl_c sl) = 0 \<and> \<not> closed (sl_c sl) \<longrightarrow>
     (recvq (sl_c sl) > 0 \<longrightarrow>
        StateListener_Write sl b =
          (Returned (int (length b), None),
           sl\<lparr>sl_c := (sl_c sl)\<lparr>recvq := recvq (sl_c sl) - 1,
                                  received := received (sl_c sl) @ [b]\<rparr>\<rparr>))
     \<and> (recvq (sl_c sl) = 0 \<longrightarrow>
        StateListener_Write sl b =
          (Returned (0, Some ''unable to write bytes to channel; no listener available''), sl))"
  by (simp add: StateListener_Write_def select_send_def)

theorem StateListener_Write_nonblocking_witness:
  "capacity (sl_c NewStateListener) = 0 \<and> \<not> closed (sl_c NewStateListener)
   \<and> recvq (sl_c NewStateListener) = 0
   \<and> StateListener_Write NewStateListener [1, 2] =
       (Returned (0, Some ''unable to write bytes to channel; no listener available''),
        NewStateListener)
   \<and> recvq (sl_c (NewStateListener\<lparr>sl_c := (sl_c NewStateListener)\<lparr>recvq := 1\<rparr>\<rparr>)) > 0
   \<and> StateListener_Write (NewStateListener\<lparr>sl_c := (sl_c NewStateListener)\<lparr>recvq := 1\<rparr>\<rparr>) [1, 2] =
       (Returned (2, None),
        NewStateListener\<lparr>sl_c := (sl_c NewStateListener)\<lparr>received := [[1, 2]]\<rparr>\<rparr>)"
  using StateListener_Write_nonblocking [of NewStateListener "[1, 2]"]
    StateListener_Write_nonblocking
      [of "NewStateListener\<lparr>sl_c := (sl_c NewStateListener)\<lparr>recvq := 1\<rparr>\<rparr>" "[1, 2]"]
  by (simp add: NewStateListener_def make_chan_def)

section \<open>Theorems: file streamer\<close>

text \<open>
  \<open>Close\<close> returns nil exactly when no destination returns an error from its \<open>Close\<close>.
\<close>

lemma close_dsts_None_iff:
  "fst (close_dsts path dsts) = None \<longleftrightarrow> (\<forall>dst \<in> set dsts. close_error dst = None)"
  by (induction dsts) (auto simp: dst_Close_def split: prod.splits option.splits)

lemma close_paths_None_iff:
  "fst (close_paths m) = None \<longleftrightarrow> (\<forall>(path, dsts) \<in> set m. \<forall>dst \<in> set dsts. close_error dst = None)"
proof (induction m)
  case Nil
  then show ?case by simp
next
  case (Cons pd m)
  obtain path dsts where pd: "pd = (path, dsts)" by (cases pd)
  show ?case
  proof (cases "fst (close_dsts path dsts)")
    case None
    with Cons pd close_dsts_None_iff [of path dsts] show ?thesis
      by (auto split: prod.splits option.splits)
  next
    case (Some err)
    with pd close_dsts_None_iff [of path dsts] show ?thesis
      by (auto split: prod.splits option.splits)
  qed
qed

text \<open>
  C4, as the code has it. On a file streamer whose quit channel is open, \<open>Close\<close>
  returns; and whenever a \<open>Close\<close> has returned, the next \<open>Close\<close> panics on closing
  the closed quit channel, before it touches any destination.
\<close>

theorem FileStreamer_Close_twice_panics:
  "(\<not> closed (quitChan fs) \<longrightarrow> (\<exists>r. fst (FileStreamer_Close fs) = Returned r))
   \<and> (fst (FileStreamer_Close fs) = Returned r \<longrightarrow>
        FileStreamer_Close (snd (FileStreamer_Close fs)) =
          (Panic ''close of closed channel'', snd (FileStreamer_Close fs)))"
  by (auto simp: FileStreamer_Close_def close_chan_def split: if_splits prod.splits)

theorem FileStreamer_Close_twice_panics_witness:
  "\<not> closed (quitChan NewFileStreamer)
   \<and> fst (FileStreamer_Close NewFileStreamer) = Returned None
   \<and> FileStreamer_Close (snd (FileStreamer_Close NewFileStreamer)) =
          (Panic ''close of closed channel'', snd (FileStreamer_Close NewFileStreamer))"
  using FileStreamer_Close_twice_panics [of NewFileStreamer None]
  by (simp add: FileStreamer_Close_def NewFileStreamer_def make_chan_def close_chan_def)

text \<open>
  C4, as it is worded: a second \<open>Close\<close> does not panic. On a new file streamer with one
  destination the first \<open>Close\<close> returns nil and the second panics.
\<close>

theorem FileStreamer_second_Close_counterexample:
  "fst (FileStreamer_Close
          (AddDestination NewFileStreamer ''p'' (Some \<lparr>close_error = None, close_calls = 0\<rparr>)))
     = Returned None
   \<and> fst (FileStreamer_Close (snd (FileStreamer_Close
          (AddDestination NewFileStreamer ''p'' (Some \<lparr>close_error = None, close_calls = 0\<rparr>)))))
     = Panic ''close of closed channel''"
  by (simp add: FileStreamer_Close_def NewFileStreamer_def make_chan_def close_chan_def
      AddDestination_def dst_Close_def)

text \<open>
  C5. \<open>Close\<close> is claimed to close every destination even when the \<open>Close\<close> of one
  fails, and to return the first error. With two destinations under the path \<open>p\<close>, the
  first of which fails to close, the code closes the quit channel, calls \<open>Close\<close> on the
  first destination and returns its error; \<open>Close\<close> is never called on the second.
\<close>

theorem FileStreamer_Close_stops_at_first_error:
  "FileStreamer_Close
     (AddDestination
        (AddDestination NewFileStreamer ''p'' (Some \<lparr>close_error = Some ''busy'', close_calls = 0\<rparr>))
        ''p'' (Some \<lparr>close_error = None, close_calls = 0\<rparr>))
   = (Returned (Some ''error closing destination: path (p) err (busy)''),
      \<lparr>writeDirPath = [], quitChan = (make_chan 0)\<lparr>closed := True\<rparr>,
       destinations = [(''p'', [\<lparr>close_error = Some ''busy'', close_calls = 1\<rparr>,
                                \<lparr>close_error = None, close_calls = 0\<rparr>])],
       sources = []\<rparr>)"
  by (simp add: FileStreamer_Close_def NewFileStreamer_def make_chan_def close_chan_def
      AddDestination_def dst_Close_def close_errorf_def)

section \<open>Theorems: bank table decoder\<close>

lemma decodeBalanceUpdate_short:
  "too_short (remainder ks key) \<Longrightarrow> \<exists>m. decodeBalanceUpdate ks cdc key val = Panic m"
  by (auto simp: decodeBalanceUpdate_def too_short_def remainder_def Let_def)

lemma decodeBalanceUpdate_nil:
  "\<not> too_short (remainder ks key) \<Longrightarrow>
   decodeBalanceUpdate ks cdc key None =
     Returned ([\<lparr>Table = ''Balance'', UpdateOrReplace = True,
                 Updated = Some (BalanceTable
                   (string_of_bytes (take (unat (hd (remainder ks key))) (drop 1 (remainder ks key))))
                   (string_of_bytes (drop (unat (hd (remainder ks key)) + 2) (remainder ks key)))
                   None),
                 ClearedFields = [''Balance'']\<rparr>], None)"
  by (auto simp: decodeBalanceUpdate_def too_short_def remainder_def Let_def)

text \<open>
  A malformed value under a well-formed balance key, or under a metadata key, makes
  \<open>Decode\<close> panic with the error of the codec, for every codec and all key constants.
\<close>

lemma Decode_balance_malformed_value:
  "balance_key ks key \<Longrightarrow> \<not> too_short (remainder ks key) \<Longrightarrow>
   Unmarshal_Coin cdc v = Inl err \<Longrightarrow> Decode ks cdc key (Some v) = Panic err"
  by (auto simp: Decode_def balance_key_def decodeBalanceUpdate_def too_short_def
      remainder_def Let_def MustUnmarshal_def)

lemma Decode_metadata_malformed_value:
  "\<not> HasPrefix key (SupplyKey ks) \<Longrightarrow> \<not> HasPrefix key (BalancesPrefix ks) \<Longrightarrow>
   HasPrefix key (DenomMetadataPrefix ks) \<Longrightarrow>
   Unmarshal_Metadata cdc v = Inl err \<Longrightarrow> Decode ks cdc key (Some v) = Panic err"
  by (simp add: Decode_def decodeMetadataUpdate_def MustUnmarshal_def)

text \<open>
  C6. \<open>Decode\<close> is claimed to return an error, and never to panic, on a value that fails
  to unmarshal. With a codec for which the value is malformed, the balance key
  \<open>02 01 41 61 74 6f 6d\<close> and the metadata key \<open>01 61 74 6f 6d\<close> make \<open>Decode\<close> panic
  with the error of the codec, where the supply key \<open>00 61 74 6f 6d\<close> makes it return an
  error.
\<close>

theorem Decode_malformed_value_panics:
  "Decode one_byte_keys rejecting_codec [2, 1, 65, 97, 116, 111, 109] (Some [255])
     = Panic ''malformed''
   \<and> Decode one_byte_keys rejecting_codec [1, 97, 116, 111, 109] (Some [255])
     = Panic ''malformed''
   \<and> Decode one_byte_keys rejecting_codec [0, 97, 116, 111, 109] (Some [255]) =
       Returned ([], Some ''unable to unmarshal supply value malformed'')"
  by (simp add: one_byte_keys_def rejecting_codec_def HasPrefix_def MustUnmarshal_def
      TrimPrefix_def Decode_def decodeBalanceUpdate_def decodeMetadataUpdate_def
      decodeSupplyUpdate_def Let_def)

text \<open>
  C7, as the code has it. For every key that one of the cases of \<open>Decode\<close> takes, and
  whose remainder, if it is a balance key, is not too short, \<open>Decode\<close> of the key with a
  nil value returns one update and no error; the update is in patch mode, its cleared
  fields are not empty and name every value-bearing field of the table, and its record
  carries no value-bearing field.
\<close>

theorem Decode_nil_value_deletion_patch:
  "registered ks key \<and> (balance_key ks key \<longrightarrow> \<not> too_short (remainder ks key)) \<longrightarrow>
     (\<exists>u. Decode ks cdc key None = Returned ([u], None) \<and> deletion_patch u)"
proof (intro impI, elim conjE)
  assume reg: "registered ks key"
    and wf: "balance_key ks key \<longrightarrow> \<not> too_short (remainder ks key)"
  consider (sply) "HasPrefix key (SupplyKey ks)"
    | (balance) "\<not> HasPrefix key (SupplyKey ks)" "HasPrefix key (BalancesPrefix ks)"
    | (metadata) "\<not> HasPrefix key (SupplyKey ks)" "\<not> HasPrefix key (BalancesPrefix ks)"
        "HasPrefix key (DenomMetadataPrefix ks)"
    | (enabled) "\<not> HasPrefix key (SupplyKey ks)" "\<not> HasPrefix key (BalancesPrefix ks)"
        "\<not> HasPrefix key (DenomMetadataPrefix ks)" "Equal_bytes key (KeySendEnabled ks)"
    | (dflt) "\<not> HasPrefix key (SupplyKey ks)" "\<not> HasPrefix key (BalancesPrefix ks)"
        "\<not> HasPrefix key (DenomMetadataPrefix ks)" "\<not> Equal_bytes key (KeySendEnabled ks)"
        "Equal_bytes key (KeyDefaultSendEnabled ks)"
    using reg by (auto simp: registered_def)
  then show "\<exists>u. Decode ks cdc key None = Returned ([u], None) \<and> deletion_patch u"
  proof cases
    case sply
    then show ?thesis
      by (simp add: Decode_def decodeSupplyUpdate_def deletion_patch_def value_fields_def)
  next
    case balance
    with wf have "\<not> too_short (remainder ks key)" by (simp add: balance_key_def)
    from decodeBalanceUpdate_nil [OF this, of cdc] balance show ?thesis
      by (simp add: Decode_def deletion_patch_def value_fields_def)
  next
    case metadata
    then show ?thesis
      by (simp add: Decode_def decodeMetadataUpdate_def deletion_patch_def value_fields_def)
  next
    case enabled
    then show ?thesis
      by (simp add: Decode_def decodeSendEnabledUpdate_def deletion_patch_def value_fields_def)
  next
    case dflt
    then show ?thesis
      by (simp add: Decode_def decodeDefaultSendEnabledUpdate_def deletion_patch_def
          value_fields_def)
  qed
qed

theorem Decode_nil_value_deletion_patch_witness:
  "registered one_byte_keys [2, 1, 65, 0, 97]
   \<and> balance_key one_byte_keys [2, 1, 65, 0, 97]
   \<and> \<not> too_short (remainder one_byte_keys [2, 1, 65, 0, 97])
   \<and> Decode one_byte_keys rejecting_codec [2, 1, 65, 0, 97] None =
       Returned ([\<lparr>Table = ''Balance'', UpdateOrReplace = True,
                   Updated = Some (BalanceTable (string_of_bytes [65]) (string_of_bytes [97]) None),
                   ClearedFields = [''Balance'']\<rparr>], None)
   \<and> deletion_patch \<lparr>Table = ''Balance'', UpdateOrReplace = True,
                      Updated = Some (BalanceTable (string_of_bytes [65]) (string_of_bytes [97]) None),
                      ClearedFields = [''Balance'']\<rparr>"
proof -
  have r: "registered one_byte_keys [2, 1, 65, 0, 97]"
    by (simp add: registered_def one_byte_keys_def HasPrefix_def)
  have b: "balance_key one_byte_keys [2, 1, 65, 0, 97]"
    by (simp add: balance_key_def one_byte_keys_def HasPrefix_def)
  have t: "\<not> too_short (remainder one_byte_keys [2, 1, 65, 0, 97])"
    by (simp add: too_short_def remainder_def one_byte_keys_def HasPrefix_def TrimPrefix_def)
  have d: "Decode one_byte_keys rejecting_codec [2, 1, 65, 0, 97] None =
       Returned ([\<lparr>Table = ''Balance'', UpdateOrReplace = True,
                   Updated = Some (BalanceTable (string_of_bytes [65]) (string_of_bytes [97]) None),
                   ClearedFields = [''Balance'']\<rparr>], None)"
    by (simp add: one_byte_keys_def HasPrefix_def TrimPrefix_def Decode_def
        decodeBalanceUpdate_def Let_def)
  from r b t d Decode_nil_value_deletion_patch [of one_byte_keys "[2, 1, 65, 0, 97]" rejecting_codec]
  show ?thesis by simp
qed

text \<open>
  C7, as it is worded: for every key with a registered prefix. The bare balances prefix
  is such a key, and \<open>Decode\<close> of it with a nil value panics instead of yielding an
  update.
\<close>

theorem Decode_nil_value_bare_prefix_counterexample:
  "registered one_byte_keys [2]
   \<and> Decode one_byte_keys rejecting_codec [2] None = Panic ''index out of range''"
  by (simp add: registered_def one_byte_keys_def HasPrefix_def
      TrimPrefix_def Decode_def decodeBalanceUpdate_def Let_def)

text \<open>
  C10, as the code has it. \<open>Decode\<close> is not total on the balance keys: where the
  remainder of the key is empty, or shorter than \<open>addrLen + 2\<close> for the \<open>addrLen\<close> in its
  first byte, \<open>Decode\<close> panics for every value, nil included; where the remainder has
  \<open>addrLen + 2\<close> bytes or more, \<open>Decode\<close> of the key with a nil value returns.
\<close>

theorem Decode_balance_key_panics_iff_too_short:
  "balance_key ks key \<longrightarrow>
     (too_short (remainder ks key) \<longrightarrow> (\<forall>val. \<exists>m. Decode ks cdc key val = Panic m))
     \<and> (\<not> too_short (remainder ks key) \<longrightarrow> (\<exists>r. Decode ks cdc key None = Returned r))"
  using decodeBalanceUpdate_short [of ks key cdc] decodeBalanceUpdate_nil [of ks key cdc]
  by (auto simp: Decode_def balance_key_def)

theorem Decode_balance_key_panics_iff_too_short_witness:
  "balance_key one_byte_keys [2] \<and> too_short (remainder one_byte_keys [2])
   \<and> Decode one_byte_keys rejecting_codec [2] (Some [10]) = Panic ''index out of range''
   \<and> balance_key one_byte_keys [2, 1, 65] \<and> too_short (remainder one_byte_keys [2, 1, 65])
   \<and> Decode one_byte_keys rejecting_codec [2, 1, 65] None = Panic ''slice bounds out of range''
   \<and> balance_key one_byte_keys [2, 1, 65, 0]
   \<and> \<not> too_short (remainder one_byte_keys [2, 1, 65, 0])
   \<and> Decode one_byte_keys rejecting_codec [2, 1, 65, 0] None =
       Returned ([\<lparr>Table = ''Balance'', UpdateOrReplace = True,
                   Updated = Some (BalanceTable (string_of_bytes [65]) [] None),
                   ClearedFields = [''Balance'']\<rparr>], None)"
  using Decode_balance_key_panics_iff_too_short [of one_byte_keys "[2]" rejecting_codec]
    Decode_balance_key_panics_iff_too_short [of one_byte_keys "[2, 1, 65]" rejecting_codec]
    Decode_balance_key_panics_iff_too_short [of one_byte_keys "[2, 1, 65, 0]" rejecting_codec]
  by (simp add: balance_key_def too_short_def remainder_def one_byte_keys_def HasPrefix_def
      TrimPrefix_def Decode_def decodeBalanceUpdate_def string_of_bytes_def Let_def)

text \<open>
  C10, as it is worded: every key whose remainder is shorter than \<open>1 + addrLen + 2\<close>
  makes \<open>Decode\<close> panic. The remainder \<open>00 78\<close> has \<open>addrLen = 0\<close> and two bytes, fewer
  than three, and \<open>Decode\<close> of the key with a nil value returns an update (the slice
  expression with a lower bound equal to the length is in range).
\<close>

theorem Decode_balance_key_boundary_counterexample:
  "balance_key one_byte_keys [2, 0, 120]
   \<and> length (remainder one_byte_keys [2, 0, 120])
       < 1 + unat (hd (remainder one_byte_keys [2, 0, 120])) + 2
   \<and> Decode one_byte_keys rejecting_codec [2, 0, 120] None =
       Returned ([\<lparr>Table = ''Balance'', UpdateOrReplace = True,
                   Updated = Some (BalanceTable [] [] None),
                   ClearedFields = [''Balance'']\<rparr>], None)"
  by (simp add: balance_key_def remainder_def one_byte_keys_def HasPrefix_def
      TrimPrefix_def Decode_def decodeBalanceUpdate_def string_of_bytes_def Let_def)


end
